theory Spec2Isabelle
  imports Main "HOL-Library.Word" "HOL-Library.Multiset"
begin

section \<open>The vSphere driver of packer-builder-vsphere (driver.go)\<close>

text \<open>
  The driver talks to a remote vCenter through the govmomi client library. The library
  and the server are not part of the repository, so the embedding takes their answers as
  parameters: a \<open>Driver\<close> value carries, next to the datacenter's name, one answer function
  for every remote call the driver makes. An answer may depend on the whole \<open>world\<close>: the
  current time and the history of all calls made so far. Every call the driver makes is
  appended to that history, so that a statement such as "no clone task is submitted" is a
  statement about the history a run leaves behind.
\<close>

subsection \<open>Values exchanged with the server\<close>

text \<open>A Go \<open>error\<close> carries its message. \<open>Panic\<close> is the run-time panic of a failed
  type assertion (\<open>info.Result.(types.ManagedObjectReference)\<close> in CloneVM).\<close>

datatype error = Error string | Panic

text \<open>\<open>types.ManagedObjectReference\<close>: the type and the value of a server-side object. A
  finder result, a template and a machine handle are wrappers of one.\<close>

datatype ManagedObjectReference = MORef string string

text \<open>\<open>types.VirtualMachinePowerState\<close> and its three constants.\<close>

datatype VirtualMachinePowerState = PoweredOff | PoweredOn | Suspended

text \<open>\<open>types.VirtualMachineSnapshotInfo\<close>, the \<open>snapshot\<close> property of a machine, with the
  tree of snapshots below it.\<close>

datatype VirtualMachineSnapshotTree =
  SnapshotTree ManagedObjectReference string "VirtualMachineSnapshotTree list"

record VirtualMachineSnapshotInfo =
  CurrentSnapshot :: "ManagedObjectReference option"
  RootSnapshotList :: "VirtualMachineSnapshotTree list"

text \<open>\<open>mo.VirtualMachine\<close>, of which CloneVM reads the one property it asks for. A nil
  pointer is \<open>None\<close>.\<close>

record mo_VirtualMachine =
  mo_Snapshot :: "VirtualMachineSnapshotInfo option"

text \<open>\<open>types.VirtualMachineRelocateSpec\<close> and \<open>types.VirtualMachineCloneSpec\<close>: the fields
  CloneVM writes. All other fields keep their zero value on every path and are left out.\<close>

record VirtualMachineRelocateSpec =
  Pool :: "ManagedObjectReference option"
  Datastore_ref :: "ManagedObjectReference option"
  DiskMoveType :: string

record VirtualMachineCloneSpec =
  Location :: VirtualMachineRelocateSpec
  cloneSpec_PowerOn :: bool
  Snapshot :: "ManagedObjectReference option"

text \<open>\<open>types.ResourceAllocationInfo\<close> and \<open>types.VirtualMachineConfigSpec\<close>: the fields
  ConfigureVM writes. The numbers are Go's \<open>int32\<close> and \<open>int64\<close>; they are copied, never
  computed with.\<close>

record ResourceAllocationInfo =
  Reservation :: "64 word"
  Limit :: "64 word"

record VirtualMachineConfigSpec =
  NumCPUs :: "32 word"
  MemoryMB :: "64 word"
  CpuAllocation :: "ResourceAllocationInfo option"
  MemoryAllocation :: "ResourceAllocationInfo option"
  MemoryReservationLockedToMax :: "bool option"

text \<open>Modelled from the spec: the declarations of \<open>CloneConfig\<close> and \<open>HardwareConfig\<close> are
  not in driver.go. Their fields are the ones CloneVM and ConfigureVM read, with the types
  the assignments in driver.go force; the spec lists the same fields as Clone Parameters
  and Hardware Parameters.\<close>

record CloneConfig =
  Template :: string
  VMName :: string
  Folder :: string
  Host :: string
  ResourcePool :: string
  Datastore :: string
  LinkedClone :: bool

record HardwareConfig =
  CPUs :: "32 word"
  CPUReservation :: "64 word"
  CPULimit :: "64 word"
  RAM :: "64 word"
  RAMReservation :: "64 word"
  RAMReserveAll :: bool

text \<open>\<open>object.Task\<close> is the handle of a submitted task; \<open>types.TaskInfo\<close> is what waiting
  for it yields. Its \<open>Result\<close> is of Go's \<open>AnyType\<close>: an object reference or something else.\<close>

datatype Task = TaskRef ManagedObjectReference

datatype AnyType = AnyRef ManagedObjectReference | AnyOther

record TaskInfo =
  Result :: AnyType

subsection \<open>Remote calls and their history\<close>

text \<open>The calls that return a task: \<open>template.Clone\<close>, \<open>vm.Destroy\<close>, \<open>vm.Reconfigure\<close>,
  \<open>vm.PowerOn\<close>, \<open>vm.PowerOff\<close> and \<open>vm.CreateSnapshot\<close>, each with its arguments.\<close>

datatype Operation =
    OpClone ManagedObjectReference ManagedObjectReference string VirtualMachineCloneSpec
  | OpDestroy ManagedObjectReference
  | OpReconfigure ManagedObjectReference VirtualMachineConfigSpec
  | OpPowerOn ManagedObjectReference
  | OpPowerOff ManagedObjectReference
  | OpCreateSnapshot ManagedObjectReference string string bool bool

text \<open>One event per call the driver makes, with the arguments and the answer. \<open>EvSleep\<close> is
  a call of \<open>time.Sleep\<close>, with the requested duration in nanoseconds.\<close>

datatype event =
    EvFindVirtualMachine string "error + ManagedObjectReference"
  | EvFindFolderOrDefault string "error + ManagedObjectReference"
  | EvFindResourcePoolOrDefault string "error + ManagedObjectReference"
  | EvFindDatastore string "error + ManagedObjectReference"
  | EvProperties ManagedObjectReference "string list" "error + mo_VirtualMachine"
  | EvPowerState ManagedObjectReference "error + VirtualMachinePowerState"
  | EvSubmit Operation "error + Task"
  | EvAwait Task "error + TaskInfo"
  | EvSleep int

text \<open>The world: the clock, in nanoseconds, and the history of calls, oldest first.\<close>

record world =
  now :: int
  trace :: "event list"

text \<open>The driver's session. \<open>datacenter\<close> is \<open>d.datacenter.Name()\<close>; the other fields are
  the answers of the finder, of the property collector and of the task interface in a
  given world. \<open>elapse\<close> is the time a call takes in a given world beyond what it asks
  for: any natural number of nanoseconds.\<close>

record Driver =
  datacenter :: string
  find_VirtualMachine :: "world \<Rightarrow> string \<Rightarrow> error + ManagedObjectReference"
  find_FolderOrDefault :: "world \<Rightarrow> string \<Rightarrow> error + ManagedObjectReference"
  find_ResourcePoolOrDefault :: "world \<Rightarrow> string \<Rightarrow> error + ManagedObjectReference"
  find_Datastore :: "world \<Rightarrow> string \<Rightarrow> error + ManagedObjectReference"
  get_Properties :: "world \<Rightarrow> ManagedObjectReference \<Rightarrow> string list \<Rightarrow> error + mo_VirtualMachine"
  get_PowerState :: "world \<Rightarrow> ManagedObjectReference \<Rightarrow> error + VirtualMachinePowerState"
  submit :: "world \<Rightarrow> Operation \<Rightarrow> error + Task"
  await :: "world \<Rightarrow> Task \<Rightarrow> error + TaskInfo"
  elapse :: "world \<Rightarrow> nat"

text \<open>A call is recorded in the history and takes its time.\<close>

definition call :: "Driver \<Rightarrow> event \<Rightarrow> world \<Rightarrow> world" where
  "call d ev w = w\<lparr>now := now w + int (elapse d w), trace := trace w @ [ev]\<rparr>"

text \<open>\<open>time.Second\<close>, in nanoseconds, and \<open>time.Sleep\<close>: the clock advances by the requested
  duration and by what the call takes beyond it.\<close>

definition Second :: int where
  "Second = 1000000000"

definition time_Sleep :: "Driver \<Rightarrow> int \<Rightarrow> world \<Rightarrow> world" where
  "time_Sleep d n w = (call d (EvSleep n) w)\<lparr>now := now w + n + int (elapse d w)\<rparr>"

text \<open>The library calls of driver.go: each asks the session for the answer in the
  current world and records the call.\<close>

definition finder_VirtualMachine ::
  "Driver \<Rightarrow> string \<Rightarrow> world \<Rightarrow> (error + ManagedObjectReference) \<times> world" where
  "finder_VirtualMachine d path w =
     (find_VirtualMachine d w path, call d (EvFindVirtualMachine path (find_VirtualMachine d w path)) w)"

definition finder_FolderOrDefault ::
  "Driver \<Rightarrow> string \<Rightarrow> world \<Rightarrow> (error + ManagedObjectReference) \<times> world" where
  "finder_FolderOrDefault d path w =
     (find_FolderOrDefault d w path, call d (EvFindFolderOrDefault path (find_FolderOrDefault d w path)) w)"

definition finder_ResourcePoolOrDefault ::
  "Driver \<Rightarrow> string \<Rightarrow> world \<Rightarrow> (error + ManagedObjectReference) \<times> world" where
  "finder_ResourcePoolOrDefault d path w =
     (find_ResourcePoolOrDefault d w path,
      call d (EvFindResourcePoolOrDefault path (find_ResourcePoolOrDefault d w path)) w)"

definition finder_Datastore ::
  "Driver \<Rightarrow> string \<Rightarrow> world \<Rightarrow> (error + ManagedObjectReference) \<times> world" where
  "finder_Datastore d path w =
     (find_Datastore d w path, call d (EvFindDatastore path (find_Datastore d w path)) w)"

definition vm_Properties ::
  "Driver \<Rightarrow> ManagedObjectReference \<Rightarrow> string list \<Rightarrow> world \<Rightarrow> (error + mo_VirtualMachine) \<times> world" where
  "vm_Properties d vm ps w =
     (get_Properties d w vm ps, call d (EvProperties vm ps (get_Properties d w vm ps)) w)"

definition vm_PowerState ::
  "Driver \<Rightarrow> ManagedObjectReference \<Rightarrow> world \<Rightarrow> (error + VirtualMachinePowerState) \<times> world" where
  "vm_PowerState d vm w =
     (get_PowerState d w vm, call d (EvPowerState vm (get_PowerState d w vm)) w)"

definition submitTask :: "Driver \<Rightarrow> Operation \<Rightarrow> world \<Rightarrow> (error + Task) \<times> world" where
  "submitTask d op w = (submit d w op, call d (EvSubmit op (submit d w op)) w)"

definition task_WaitForResult :: "Driver \<Rightarrow> Task \<Rightarrow> world \<Rightarrow> (error + TaskInfo) \<times> world" where
  "task_WaitForResult d task w = (await d w task, call d (EvAwait task (await d w task)) w)"

subsection \<open>Reading a history\<close>

text \<open>The task submissions of a history, in order.\<close>

fun is_submission :: "event \<Rightarrow> bool" where
  "is_submission (EvSubmit op r) = True"
| "is_submission _ = False"

definition submissions :: "event list \<Rightarrow> event list" where
  "submissions evs = filter is_submission evs"

text \<open>The tasks in flight after a history: a successful submission puts its task in
  flight, a wait for a task that has returned takes it out.\<close>

fun track :: "Task multiset \<Rightarrow> event \<Rightarrow> Task multiset" where
  "track m (EvSubmit op (Inr task)) = add_mset task m"
| "track m (EvAwait task r) = m - {#task#}"
| "track m _ = m"

definition in_flight :: "event list \<Rightarrow> Task multiset" where
  "in_flight evs = foldl track {#} evs"

text \<open>The events a run has added to the history it started from.\<close>

definition added :: "world \<Rightarrow> world \<Rightarrow> event list" where
  "added w w' = drop (length (trace w)) (trace w')"

subsection \<open>The operations with one task\<close>

text \<open>DestroyVM, lines 121 to 128.\<close>

definition DestroyVM :: "Driver \<Rightarrow> ManagedObjectReference \<Rightarrow> world \<Rightarrow> (error + unit) \<times> world" where
  "DestroyVM d vm w =
     (case submitTask d (OpDestroy vm) w of
        (Inl err, w1) \<Rightarrow> (Inl err, w1)
      | (Inr task, w1) \<Rightarrow>
          (case task_WaitForResult d task w1 of
             (Inl err, w2) \<Rightarrow> (Inl err, w2)
           | (Inr info, w2) \<Rightarrow> (Inr (), w2)))"

text \<open>ConfigureVM, lines 130 to 152. \<open>ramSpec.Limit\<close> is never assigned and keeps Go's zero
  value; \<open>&config.RAMReserveAll\<close> points at a field nothing writes before the request is
  sent.\<close>

definition ConfigureVM ::
  "Driver \<Rightarrow> ManagedObjectReference \<Rightarrow> HardwareConfig \<Rightarrow> world \<Rightarrow> (error + unit) \<times> world" where
  "ConfigureVM d vm config w =
     (let cpuSpec = \<lparr>Reservation = CPUReservation config, Limit = CPULimit config\<rparr>;
          ramSpec = \<lparr>Reservation = RAMReservation config, Limit = 0\<rparr>;
          confSpec = \<lparr>NumCPUs = CPUs config,
                      MemoryMB = RAM config,
                      CpuAllocation = Some cpuSpec,
                      MemoryAllocation = Some ramSpec,
                      MemoryReservationLockedToMax = Some (RAMReserveAll config)\<rparr>
      in case submitTask d (OpReconfigure vm confSpec) w of
           (Inl err, w1) \<Rightarrow> (Inl err, w1)
         | (Inr task, w1) \<Rightarrow>
             (case task_WaitForResult d task w1 of
                (Inl err, w2) \<Rightarrow> (Inl err, w2)
              | (Inr info, w2) \<Rightarrow> (Inr (), w2)))"

text \<open>PowerOn, lines 154 to 161.\<close>

definition PowerOn :: "Driver \<Rightarrow> ManagedObjectReference \<Rightarrow> world \<Rightarrow> (error + unit) \<times> world" where
  "PowerOn d vm w =
     (case submitTask d (OpPowerOn vm) w of
        (Inl err, w1) \<Rightarrow> (Inl err, w1)
      | (Inr task, w1) \<Rightarrow>
          (case task_WaitForResult d task w1 of
             (Inl err, w2) \<Rightarrow> (Inl err, w2)
           | (Inr info, w2) \<Rightarrow> (Inr (), w2)))"

text \<open>PowerOff, lines 171 to 187.\<close>

definition PowerOff :: "Driver \<Rightarrow> ManagedObjectReference \<Rightarrow> world \<Rightarrow> (error + unit) \<times> world" where
  "PowerOff d vm w =
     (case vm_PowerState d vm w of
        (Inl err, w1) \<Rightarrow> (Inl err, w1)
      | (Inr state, w1) \<Rightarrow>
          if state = PoweredOff then (Inr (), w1)
          else
            (case submitTask d (OpPowerOff vm) w1 of
               (Inl err, w2) \<Rightarrow> (Inl err, w2)
             | (Inr task, w2) \<Rightarrow>
                 (case task_WaitForResult d task w2 of
                    (Inl err, w3) \<Rightarrow> (Inl err, w3)
                  | (Inr info, w3) \<Rightarrow> (Inr (), w3))))"

text \<open>CreateSnapshot, lines 216 to 223.\<close>

definition CreateSnapshot :: "Driver \<Rightarrow> ManagedObjectReference \<Rightarrow> world \<Rightarrow> (error + unit) \<times> world" where
  "CreateSnapshot d vm w =
     (case submitTask d (OpCreateSnapshot vm ''Created by Packer'' '''' False False) w of
        (Inl err, w1) \<Rightarrow> (Inl err, w1)
      | (Inr task, w1) \<Rightarrow>
          (case task_WaitForResult d task w1 of
             (Inl err, w2) \<Rightarrow> (Inl err, w2)
           | (Inr info, w2) \<Rightarrow> (Inr (), w2)))"

subsection \<open>WaitForShutdown\<close>

text \<open>WaitForShutdown, lines 194 to 214. \<open>time.After(timeout)\<close> yields a channel that is
  ready from the moment \<open>now + timeout\<close> on, so the \<open>select\<close> with a \<open>default\<close> branch takes
  its first branch exactly when the clock has reached that deadline. The loop is the
  recursion below; it is entered with the deadline computed once, before the first
  query. A \<open>time.Duration\<close> is a 64-bit number of nanoseconds and may be zero or negative;
  the clock and the deadline are unbounded integers here, which differs from Go only for
  a deadline beyond the 64-bit range, some 292 years away. Every sleep advances the clock
  by at least one second, so the loop ends: the recursion is total.\<close>

function WaitForShutdown_loop ::
  "Driver \<Rightarrow> ManagedObjectReference \<Rightarrow> int \<Rightarrow> world \<Rightarrow> (error + unit) \<times> world" where
  "WaitForShutdown_loop d vm deadline w =
     (case vm_PowerState d vm w of
        (Inl err, w1) \<Rightarrow> (Inl err, w1)
      | (Inr powerState, w1) \<Rightarrow>
          if powerState = PoweredOff then (Inr (), w1)
          else if deadline \<le> now w1
          then (Inl (Error ''Timeout while waiting for machine to shut down.''), w1)
          else WaitForShutdown_loop d vm deadline (time_Sleep d (1 * Second) w1))"
  by pat_completeness auto
termination
proof (relation "measure (\<lambda>(d, vm, deadline, w). nat (deadline - now w))")
  show "wf (measure (\<lambda>(d, vm, deadline, w). nat (deadline - now w)))"
    by simp
next
  fix d :: Driver and vm deadline w x w1 powerState
  assume q: "(x, w1) = vm_PowerState d vm w" and late: "\<not> deadline \<le> now w1"
  from q have "now w1 = now w + int (elapse d w)"
    by (simp add: vm_PowerState_def call_def)
  with late show "((d, vm, deadline, time_Sleep d (1 * Second) w1), (d, vm, deadline, w))
      \<in> measure (\<lambda>(d, vm, deadline, w). nat (deadline - now w))"
    by (simp add: time_Sleep_def call_def Second_def)
qed

declare WaitForShutdown_loop.simps [simp del]

definition WaitForShutdown ::
  "Driver \<Rightarrow> ManagedObjectReference \<Rightarrow> int \<Rightarrow> world \<Rightarrow> (error + unit) \<times> world" where
  "WaitForShutdown d vm timeout w = WaitForShutdown_loop d vm (now w + timeout) w"

subsection \<open>CloneVM\<close>

text \<open>CloneVM, lines 53 to 119. Each \<open>return nil, err\<close> of the source is an \<open>Inl\<close> branch
  that ends the run with the world as it is at that point. \<open>fmt.Sprintf\<close> with \<open>%v\<close> on
  strings is concatenation.\<close>

definition CloneVM ::
  "Driver \<Rightarrow> CloneConfig \<Rightarrow> world \<Rightarrow> (error + ManagedObjectReference) \<times> world" where
  "CloneVM d config w =
    (case finder_VirtualMachine d (Template config) w of
       (Inl err, w1) \<Rightarrow> (Inl err, w1)
     | (Inr template, w1) \<Rightarrow>
    (case finder_FolderOrDefault d (''/'' @ datacenter d @ ''/vm/'' @ Folder config) w1 of
       (Inl err, w2) \<Rightarrow> (Inl err, w2)
     | (Inr folder, w2) \<Rightarrow>
    (case (if ResourcePool config \<noteq> ''''
           then finder_ResourcePoolOrDefault d
                  (''/'' @ datacenter d @ ''/host/'' @ Host config @ ''/Resources/'' @ ResourcePool config) w2
           else finder_ResourcePoolOrDefault d '''' w2) of
       (Inl err, w3) \<Rightarrow> (Inl err, w3)
     | (Inr pool, w3) \<Rightarrow>
    (case (if Datastore config \<noteq> ''''
           then (case finder_Datastore d (Datastore config) w3 of
                   (Inl err, w4) \<Rightarrow> (Inl err, w4)
                 | (Inr datastore, w4) \<Rightarrow>
                     (Inr \<lparr>Pool = Some pool, Datastore_ref = Some datastore, DiskMoveType = ''''\<rparr>, w4))
           else (Inr \<lparr>Pool = Some pool, Datastore_ref = None, DiskMoveType = ''''\<rparr>, w3)) of
       (Inl err, w4) \<Rightarrow> (Inl err, w4)
     | (Inr relocateSpec, w4) \<Rightarrow>
    (case (if LinkedClone config = True
           then (case vm_Properties d template [''snapshot''] w4 of
                   (Inl err, w5) \<Rightarrow> (Inl err, w5)
                 | (Inr tpl, w5) \<Rightarrow>
                     (case mo_Snapshot tpl of
                        None \<Rightarrow> (Inl (Error ''`linked_clone=true`, but template has no snapshots''), w5)
                      | Some snapshot \<Rightarrow>
                          (Inr \<lparr>Location = relocateSpec\<lparr>DiskMoveType := ''createNewChildDiskBacking''\<rparr>,
                                cloneSpec_PowerOn = False,
                                Snapshot = CurrentSnapshot snapshot\<rparr>, w5)))
           else (Inr \<lparr>Location = relocateSpec, cloneSpec_PowerOn = False, Snapshot = None\<rparr>, w4)) of
       (Inl err, w5) \<Rightarrow> (Inl err, w5)
     | (Inr cloneSpec, w5) \<Rightarrow>
    (case submitTask d (OpClone template folder (VMName config) cloneSpec) w5 of
       (Inl err, w6) \<Rightarrow> (Inl err, w6)
     | (Inr task, w6) \<Rightarrow>
    (case task_WaitForResult d task w6 of
       (Inl err, w7) \<Rightarrow> (Inl err, w7)
     | (Inr info, w7) \<Rightarrow>
         (case Result info of
            AnyRef vm \<Rightarrow> (Inr vm, w7)
          | AnyOther \<Rightarrow> (Inl Panic, w7)))))))))"

subsection \<open>Reading the history of a clone and of a wait\<close>

text \<open>The clone requests of a history, in order: the template and the specification of
  each submitted clone, with the property fetch answered last before it, if any was: the
  machine asked about, the properties asked for and the answer.\<close>

fun clone_requests ::
  "(ManagedObjectReference \<times> string list \<times> mo_VirtualMachine) option \<Rightarrow> event list \<Rightarrow>
   (ManagedObjectReference \<times> VirtualMachineCloneSpec \<times>
    (ManagedObjectReference \<times> string list \<times> mo_VirtualMachine) option) list" where
  "clone_requests fetched [] = []"
| "clone_requests fetched (EvProperties vm ps (Inr tpl) # evs) =
     clone_requests (Some (vm, ps, tpl)) evs"
| "clone_requests fetched (EvSubmit (OpClone template folder name spec) r # evs) =
     (template, spec, fetched) # clone_requests fetched evs"
| "clone_requests fetched (ev # evs) = clone_requests fetched evs"

text \<open>The resource pool lookups of a history, in order: the path asked for and the
  answer.\<close>

fun pool_lookups :: "event list \<Rightarrow> (string \<times> (error + ManagedObjectReference)) list" where
  "pool_lookups [] = []"
| "pool_lookups (EvFindResourcePoolOrDefault path r # evs) = (path, r) # pool_lookups evs"
| "pool_lookups (ev # evs) = pool_lookups evs"

text \<open>The shape of a wait for shutdown: queries of the power state of one machine, every
  query but the last answered with a state other than powered off and followed by a
  sleep of exactly one second, and nothing after the last query.\<close>

fun paced :: "ManagedObjectReference \<Rightarrow> event list \<Rightarrow> bool" where
  "paced vm [EvPowerState v r] = (v = vm)"
| "paced vm (EvPowerState v (Inr state) # EvSleep n # evs) =
     (v = vm \<and> state \<noteq> PoweredOff \<and> n = Second \<and> paced vm evs)"
| "paced vm evs = False"

subsection \<open>A fixture\<close>

text \<open>A session on a single datacenter in which every lookup succeeds and every task
  completes at once. The power state may depend on the world; the snapshot metadata of
  every machine is the one given.\<close>

definition fixture ::
  "(world \<Rightarrow> VirtualMachinePowerState) \<Rightarrow> VirtualMachineSnapshotInfo option \<Rightarrow> Driver" where
  "fixture state_at snapshot =
     \<lparr>datacenter = ''dc1'',
      find_VirtualMachine = (\<lambda>w path. Inr (MORef ''VirtualMachine'' path)),
      find_FolderOrDefault = (\<lambda>w path. Inr (MORef ''Folder'' path)),
      find_ResourcePoolOrDefault = (\<lambda>w path. Inr (MORef ''ResourcePool'' path)),
      find_Datastore = (\<lambda>w path. Inr (MORef ''Datastore'' path)),
      get_Properties = (\<lambda>w vm ps. Inr \<lparr>mo_Snapshot = snapshot\<rparr>),
      get_PowerState = (\<lambda>w vm. Inr (state_at w)),
      submit = (\<lambda>w op. Inr (TaskRef (MORef ''Task'' ''task-1''))),
      await = (\<lambda>w task. Inr \<lparr>Result = AnyRef (MORef ''VirtualMachine'' ''vm-1'')\<rparr>),
      elapse = (\<lambda>w. 0)\<rparr>"

text \<open>The same session, except that the power state can be queried only before a given
  instant; from then on the query fails.\<close>

definition failing_fixture :: "int \<Rightarrow> Driver" where
  "failing_fixture t =
     (fixture (\<lambda>w. PoweredOn) None)
       \<lparr>get_PowerState := (\<lambda>w vm. if now w < t then Inr PoweredOn else Inl (Error ''connection lost''))\<rparr>"

definition world0 :: world where
  "world0 = \<lparr>now = 0, trace = []\<rparr>"

text \<open>Clone parameters for the template \<open>tpl1\<close> and the new machine \<open>vm1\<close>, with no folder
  and no datastore named.\<close>

definition clone_config :: "string \<Rightarrow> string \<Rightarrow> bool \<Rightarrow> CloneConfig" where
  "clone_config host pool linked =
     \<lparr>Template = ''tpl1'', VMName = ''vm1'', Folder = '''', Host = host, ResourcePool = pool,
      Datastore = '''', LinkedClone = linked\<rparr>"

text \<open>A template with the snapshot chain S1, S2, of which S2 is the current one.\<close>

definition chain_S1_S2 :: VirtualMachineSnapshotInfo where
  "chain_S1_S2 =
     \<lparr>CurrentSnapshot = Some (MORef ''VirtualMachineSnapshot'' ''S2''),
      RootSnapshotList =
        [SnapshotTree (MORef ''VirtualMachineSnapshot'' ''S1'') ''S1''
           [SnapshotTree (MORef ''VirtualMachineSnapshot'' ''S2'') ''S2'' []]]\<rparr>"


section \<open>Properties\<close>

subsection \<open>Histories\<close>

lemma trace_call: "trace (call d ev w) = trace w @ [ev]"
  by (simp add: call_def)

lemma now_call: "now (call d ev w) = now w + int (elapse d w)"
  by (simp add: call_def)

lemma trace_time_Sleep: "trace (time_Sleep d n w) = trace w @ [EvSleep n]"
  by (simp add: time_Sleep_def call_def)

lemma now_time_Sleep: "now (time_Sleep d n w) = now w + n + int (elapse d w)"
  by (simp add: time_Sleep_def)

lemma in_flight_Nil: "in_flight [] = {#}"
  by (simp add: in_flight_def)

lemma in_flight_Cons: "in_flight (ev # evs) = foldl track (track {#} ev) evs"
  by (simp add: in_flight_def)

lemma submissions_Nil: "submissions [] = []"
  by (simp add: submissions_def)

lemma submissions_Cons:
  "submissions (ev # evs) = (if is_submission ev then ev # submissions evs else submissions evs)"
  by (simp add: submissions_def)

lemmas steps =
  finder_VirtualMachine_def finder_FolderOrDefault_def finder_ResourcePoolOrDefault_def
  finder_Datastore_def vm_Properties_def vm_PowerState_def submitTask_def
  task_WaitForResult_def

lemmas reads =
  added_def trace_call now_call trace_time_Sleep now_time_Sleep in_flight_Nil in_flight_Cons
  submissions_Nil submissions_Cons

subsection \<open>Waiting for shutdown\<close>

lemma loop_fail:
  "get_PowerState d w vm = Inl err \<Longrightarrow>
   WaitForShutdown_loop d vm deadline w = (Inl err, call d (EvPowerState vm (Inl err)) w)"
  by (subst WaitForShutdown_loop.simps) (simp add: vm_PowerState_def)

lemma loop_off:
  "get_PowerState d w vm = Inr PoweredOff \<Longrightarrow>
   WaitForShutdown_loop d vm deadline w = (Inr (), call d (EvPowerState vm (Inr PoweredOff)) w)"
  by (subst WaitForShutdown_loop.simps) (simp add: vm_PowerState_def)

lemma loop_timeout:
  "get_PowerState d w vm = Inr state \<Longrightarrow> state \<noteq> PoweredOff \<Longrightarrow>
   deadline \<le> now w + int (elapse d w) \<Longrightarrow>
   WaitForShutdown_loop d vm deadline w =
     (Inl (Error ''Timeout while waiting for machine to shut down.''),
      call d (EvPowerState vm (Inr state)) w)"
  by (subst WaitForShutdown_loop.simps) (simp add: vm_PowerState_def now_call)

lemma loop_again:
  "get_PowerState d w vm = Inr state \<Longrightarrow> state \<noteq> PoweredOff \<Longrightarrow>
   \<not> deadline \<le> now w + int (elapse d w) \<Longrightarrow>
   WaitForShutdown_loop d vm deadline w =
     WaitForShutdown_loop d vm deadline
       (time_Sleep d (1 * Second) (call d (EvPowerState vm (Inr state)) w))"
  by (subst WaitForShutdown_loop.simps) (simp add: vm_PowerState_def now_call)

text \<open>What a run of the loop leaves behind: its events are well paced, its last event is
  the query that decided the result, and a run that ends on a machine still not powered
  off ends at or after the deadline.\<close>

lemma loop_run:
  "\<exists>evs r. trace (snd (WaitForShutdown_loop d vm deadline w)) = trace w @ evs @ [EvPowerState vm r]
     \<and> paced vm (evs @ [EvPowerState vm r])
     \<and> (\<exists>w'. r = get_PowerState d w' vm)
     \<and> fst (WaitForShutdown_loop d vm deadline w) =
         (case r of Inl err \<Rightarrow> Inl err
          | Inr state \<Rightarrow> if state = PoweredOff then Inr ()
              else Inl (Error ''Timeout while waiting for machine to shut down.''))
     \<and> (case r of Inl err \<Rightarrow> True
          | Inr state \<Rightarrow> state = PoweredOff \<or> deadline \<le> now (snd (WaitForShutdown_loop d vm deadline w)))"
proof (induction d vm deadline w rule: WaitForShutdown_loop.induct)
  case (1 d vm deadline w)
  show ?case
  proof (cases "get_PowerState d w vm")
    case (Inl err)
    then have "\<exists>w'. Inl err = get_PowerState d w' vm"
      by metis
    then show ?thesis
      by (intro exI [of _ "[]"] exI [of _ "Inl err"])
        (simp add: loop_fail [OF Inl] trace_call)
  next
    case (Inr state)
    then have answer: "\<exists>w'. Inr state = get_PowerState d w' vm"
      by metis
    show ?thesis
    proof (cases "state = PoweredOff")
      case True
      with Inr have off: "get_PowerState d w vm = Inr PoweredOff"
        by simp
      from answer True show ?thesis
        by (intro exI [of _ "[]"] exI [of _ "Inr PoweredOff"])
          (simp add: loop_off [OF off] trace_call)
    next
      case on: False
      show ?thesis
      proof (cases "deadline \<le> now w + int (elapse d w)")
        case True
        from answer show ?thesis
          by (intro exI [of _ "[]"] exI [of _ "Inr state"])
            (simp add: loop_timeout [OF Inr on True] trace_call now_call on True)
      next
        case False
        let ?w1 = "call d (EvPowerState vm (Inr state)) w"
        let ?w2 = "time_Sleep d (1 * Second) ?w1"
        have again: "WaitForShutdown_loop d vm deadline w = WaitForShutdown_loop d vm deadline ?w2"
          by (rule loop_again [OF Inr on False])
        from "1.IH" [of "Inr state" ?w1 state] Inr on False
        obtain evs r where
          run: "trace (snd (WaitForShutdown_loop d vm deadline ?w2)) = trace ?w2 @ evs @ [EvPowerState vm r]"
          and pace: "paced vm (evs @ [EvPowerState vm r])"
          and ans: "\<exists>w'. r = get_PowerState d w' vm"
          and res: "fst (WaitForShutdown_loop d vm deadline ?w2) =
            (case r of Inl err \<Rightarrow> Inl err
             | Inr state \<Rightarrow> if state = PoweredOff then Inr ()
                 else Inl (Error ''Timeout while waiting for machine to shut down.''))"
          and late: "(case r of Inl err \<Rightarrow> True
             | Inr state \<Rightarrow> state = PoweredOff \<or> deadline \<le> now (snd (WaitForShutdown_loop d vm deadline ?w2)))"
          by (auto simp add: vm_PowerState_def now_call)
        show ?thesis
          unfolding again
          by (intro exI [of _ "EvPowerState vm (Inr state) # EvSleep (1 * Second) # evs"] exI [of _ r])
            (use run pace ans res late on in \<open>simp add: trace_time_Sleep trace_call split: sum.splits\<close>)
      qed
    qed
  qed
qed

lemma paced_failure_not_before:
  "paced vm evs \<Longrightarrow> EvPowerState v (Inl err) \<notin> set (butlast evs)"
  by (induction vm evs rule: paced.induct) auto

lemma paced_failure_last:
  assumes "paced vm (pre @ EvPowerState v (Inl err) # post)"
  shows "post = []"
proof (rule ccontr)
  assume "post \<noteq> []"
  then have "EvPowerState v (Inl err) \<in> set (butlast (pre @ EvPowerState v (Inl err) # post))"
    by (simp add: butlast_append)
  with paced_failure_not_before [OF assms] show False
    by simp
qed

text \<open>Claim C10. For every machine whose first power-state query reports powered off,
  WaitForShutdown returns success whatever the timeout is, a zero or a negative (already
  elapsed) one included: the power state is checked before the deadline. The run consists
  of that one query.\<close>

theorem WaitForShutdown_already_off:
  "get_PowerState d w vm = Inr PoweredOff \<Longrightarrow>
   WaitForShutdown d vm timeout w = (Inr (), call d (EvPowerState vm (Inr PoweredOff)) w)"
  by (simp add: WaitForShutdown_def loop_off)

theorem WaitForShutdown_already_off_witness:
  "fst (WaitForShutdown (fixture (\<lambda>w. PoweredOff) None) (MORef ''VirtualMachine'' ''vm-1'') 0 world0) = Inr ()
   \<and> fst (WaitForShutdown (fixture (\<lambda>w. PoweredOff) None) (MORef ''VirtualMachine'' ''vm-1'') (- Second)
        world0) = Inr ()"
  using WaitForShutdown_already_off
      [of "fixture (\<lambda>w. PoweredOff) None" world0 "MORef ''VirtualMachine'' ''vm-1''" 0]
    WaitForShutdown_already_off
      [of "fixture (\<lambda>w. PoweredOff) None" world0 "MORef ''VirtualMachine'' ''vm-1''" "- Second"]
  by (simp add: fixture_def)

text \<open>Claim C9. If a power-state query inside WaitForShutdown fails, WaitForShutdown returns
  that query's error at once. First conjunct: an iteration of the loop, started in any
  world and with any deadline, whose query fails returns that error and adds the failed
  query to the history and nothing else. Second conjunct: wherever a failed query stands
  among the events of a whole run of WaitForShutdown, nothing follows it (no sleep and no
  further query), and its error is the result of the run.\<close>

theorem WaitForShutdown_query_failure:
  "(get_PowerState d w vm = Inl err \<longrightarrow>
      WaitForShutdown_loop d vm deadline w = (Inl err, call d (EvPowerState vm (Inl err)) w))
   \<and> (added w0 (snd (WaitForShutdown d vm timeout w0)) = pre @ EvPowerState v (Inl err') # post \<longrightarrow>
      post = [] \<and> fst (WaitForShutdown d vm timeout w0) = Inl err')"
proof (intro conjI impI)
  assume "get_PowerState d w vm = Inl err"
  then show "WaitForShutdown_loop d vm deadline w = (Inl err, call d (EvPowerState vm (Inl err)) w)"
    by (rule loop_fail)
next
  assume failed: "added w0 (snd (WaitForShutdown d vm timeout w0)) = pre @ EvPowerState v (Inl err') # post"
  from loop_run [of d vm "now w0 + timeout" w0] obtain evs r where
    run: "trace (snd (WaitForShutdown d vm timeout w0)) = trace w0 @ evs @ [EvPowerState vm r]"
    and pace: "paced vm (evs @ [EvPowerState vm r])"
    and res: "fst (WaitForShutdown d vm timeout w0) =
      (case r of Inl err \<Rightarrow> Inl err
       | Inr state \<Rightarrow> if state = PoweredOff then Inr ()
           else Inl (Error ''Timeout while waiting for machine to shut down.''))"
    unfolding WaitForShutdown_def by blast
  from run failed have eq: "evs @ [EvPowerState vm r] = pre @ EvPowerState v (Inl err') # post"
    by (simp add: added_def)
  with pace show post: "post = []"
    by (simp add: paced_failure_last)
  with eq have "r = Inl err'"
    by simp
  with res show "fst (WaitForShutdown d vm timeout w0) = Inl err'"
    by simp
qed

theorem WaitForShutdown_query_failure_witness:
  "WaitForShutdown_loop (failing_fixture Second) (MORef ''VirtualMachine'' ''vm-1'') (3 * Second)
      \<lparr>now = Second, trace = []\<rparr> =
     (Inl (Error ''connection lost''),
      \<lparr>now = Second, trace = [EvPowerState (MORef ''VirtualMachine'' ''vm-1'') (Inl (Error ''connection lost''))]\<rparr>)
   \<and> added world0 (snd (WaitForShutdown (failing_fixture Second) (MORef ''VirtualMachine'' ''vm-1'')
        (3 * Second) world0)) =
     [EvPowerState (MORef ''VirtualMachine'' ''vm-1'') (Inr PoweredOn), EvSleep Second,
      EvPowerState (MORef ''VirtualMachine'' ''vm-1'') (Inl (Error ''connection lost''))]
   \<and> fst (WaitForShutdown (failing_fixture Second) (MORef ''VirtualMachine'' ''vm-1'') (3 * Second) world0) =
     Inl (Error ''connection lost'')"
proof -
  let ?d = "failing_fixture Second" and ?vm = "MORef ''VirtualMachine'' ''vm-1''"
  have run: "added world0 (snd (WaitForShutdown ?d ?vm (3 * Second) world0)) =
     [EvPowerState ?vm (Inr PoweredOn), EvSleep Second] @
      EvPowerState ?vm (Inl (Error ''connection lost'')) # []"
    by (simp add: WaitForShutdown_def WaitForShutdown_loop.simps vm_PowerState_def
        failing_fixture_def fixture_def world0_def call_def time_Sleep_def added_def Second_def)
  have fails: "get_PowerState ?d \<lparr>now = Second, trace = []\<rparr> ?vm = Inl (Error ''connection lost'')"
    by (simp add: failing_fixture_def fixture_def)
  from WaitForShutdown_query_failure
    [where d = ?d and vm = ?vm and w = "\<lparr>now = Second, trace = []\<rparr>" and err = "Error ''connection lost''"
      and deadline = "3 * Second" and ?w0.0 = world0 and timeout = "3 * Second"
      and pre = "[EvPowerState ?vm (Inr PoweredOn), EvSleep Second]" and v = ?vm
      and err' = "Error ''connection lost''" and post = "[]"]
    run fails
  show ?thesis
    by (simp add: call_def failing_fixture_def fixture_def)
qed



subsection \<open>Runs of CloneVM\<close>

text \<open>The events of a run of CloneVM are read along every path through the function: the
  three tests on the configuration are decided first, the answers of the server are then
  split one call after the other. Each fact is first stated of the events \<open>evs\<close> that the
  run appends to the history, and then of \<open>added\<close>.\<close>

lemmas run =
  CloneVM_def steps trace_call in_flight_Nil in_flight_Cons submissions_Nil submissions_Cons

lemma CloneVM_tasks:
  "(\<forall>(template, spec, fetched) \<in> set (clone_requests None (added w (snd (CloneVM d config w)))).
      cloneSpec_PowerOn spec = False)
   \<and> length (submissions (added w (snd (CloneVM d config w)))) =
       length (clone_requests None (added w (snd (CloneVM d config w))))
   \<and> length (clone_requests None (added w (snd (CloneVM d config w)))) \<le> 1
   \<and> in_flight (added w (snd (CloneVM d config w))) = {#}"
proof -
  have "\<exists>evs. trace (snd (CloneVM d config w)) = trace w @ evs
     \<and> (\<forall>(template, spec, fetched) \<in> set (clone_requests None evs). cloneSpec_PowerOn spec = False)
     \<and> length (submissions evs) = length (clone_requests None evs)
     \<and> length (clone_requests None evs) \<le> 1
     \<and> in_flight evs = {#}"
    by (cases "ResourcePool config = []"; cases "Datastore config = []"; cases "LinkedClone config";
        simp add: run split: sum.splits option.splits AnyType.splits)
  then show ?thesis
    by (elim exE conjE) (simp add: added_def)
qed

lemma CloneVM_linked:
  assumes "LinkedClone config"
  shows "\<forall>(template, spec, fetched) \<in> set (clone_requests None (added w (snd (CloneVM d config w)))).
      DiskMoveType (Location spec) = ''createNewChildDiskBacking'' \<and>
      (\<exists>tpl snapshot. fetched = Some (template, [''snapshot''], tpl) \<and>
         mo_Snapshot tpl = Some snapshot \<and> Snapshot spec = CurrentSnapshot snapshot)"
proof -
  from assms have "\<exists>evs. trace (snd (CloneVM d config w)) = trace w @ evs
     \<and> (\<forall>(template, spec, fetched) \<in> set (clone_requests None evs).
          DiskMoveType (Location spec) = ''createNewChildDiskBacking'' \<and>
          (\<exists>tpl snapshot. fetched = Some (template, [''snapshot''], tpl) \<and>
             mo_Snapshot tpl = Some snapshot \<and> Snapshot spec = CurrentSnapshot snapshot))"
    by (cases "ResourcePool config = []"; cases "Datastore config = []";
        simp add: run split: sum.splits option.splits AnyType.splits)
  then show ?thesis
    by (elim exE conjE) (simp add: added_def)
qed

lemma CloneVM_linked_present:
  assumes "LinkedClone config"
    and "\<forall>w' t ps tpl. get_Properties d w' t ps = Inr tpl \<longrightarrow> mo_Snapshot tpl \<noteq> None"
    and "\<forall>w' p e. find_VirtualMachine d w' p \<noteq> Inl e"
    and "\<forall>w' p e. find_FolderOrDefault d w' p \<noteq> Inl e"
    and "\<forall>w' p e. find_ResourcePoolOrDefault d w' p \<noteq> Inl e"
    and "\<forall>w' p e. find_Datastore d w' p \<noteq> Inl e"
    and "\<forall>w' t ps e. get_Properties d w' t ps \<noteq> Inl e"
  shows "length (clone_requests None (added w (snd (CloneVM d config w)))) = 1"
proof -
  from assms have "\<exists>evs. trace (snd (CloneVM d config w)) = trace w @ evs
     \<and> length (clone_requests None evs) = 1"
    by (cases "ResourcePool config = []"; cases "Datastore config = []";
        simp add: run del: not_None_eq split: sum.splits option.splits AnyType.splits; blast)
  then show ?thesis
    by (elim exE conjE) (simp add: added_def)
qed

lemma CloneVM_pool:
  "(map fst (pool_lookups (added w (snd (CloneVM d config w)))) = [] \<or>
    map fst (pool_lookups (added w (snd (CloneVM d config w)))) =
      [if ResourcePool config \<noteq> ''''
       then ''/'' @ datacenter d @ ''/host/'' @ Host config @ ''/Resources/'' @ ResourcePool config
       else ''''])
   \<and> (\<forall>(template, spec, fetched) \<in> set (clone_requests None (added w (snd (CloneVM d config w)))).
        \<exists>pool. map snd (pool_lookups (added w (snd (CloneVM d config w)))) = [Inr pool] \<and>
          Pool (Location spec) = Some pool)"
proof -
  have "\<exists>evs. trace (snd (CloneVM d config w)) = trace w @ evs
     \<and> (map fst (pool_lookups evs) = [] \<or>
        map fst (pool_lookups evs) =
          [if ResourcePool config \<noteq> ''''
           then ''/'' @ datacenter d @ ''/host/'' @ Host config @ ''/Resources/'' @ ResourcePool config
           else ''''])
     \<and> (\<forall>(template, spec, fetched) \<in> set (clone_requests None evs).
          \<exists>pool. map snd (pool_lookups evs) = [Inr pool] \<and> Pool (Location spec) = Some pool)"
    by (cases "ResourcePool config = []"; cases "Datastore config = []"; cases "LinkedClone config";
        simp add: run split: sum.splits option.splits AnyType.splits)
  then show ?thesis
    by (elim exE conjE) (simp add: added_def)
qed

lemma CloneVM_pool_reached:
  assumes "\<forall>w' p e. find_VirtualMachine d w' p \<noteq> Inl e"
    and "\<forall>w' p e. find_FolderOrDefault d w' p \<noteq> Inl e"
  shows "pool_lookups (added w (snd (CloneVM d config w))) \<noteq> []"
proof -
  from assms have "\<exists>evs. trace (snd (CloneVM d config w)) = trace w @ evs \<and> pool_lookups evs \<noteq> []"
    by (cases "ResourcePool config = []"; cases "Datastore config = []"; cases "LinkedClone config";
        simp add: run split: sum.splits option.splits AnyType.splits)
  then show ?thesis
    by (elim exE conjE) (simp add: added_def)
qed

text \<open>Claim C6. Every clone specification that CloneVM submits has power-on disabled,
  whatever the configuration says; and the submissions of a run of CloneVM are its clone
  requests, at most one.\<close>

theorem CloneVM_power_on_disabled:
  "(\<forall>(template, spec, fetched) \<in> set (clone_requests None (added w (snd (CloneVM d config w)))).
      cloneSpec_PowerOn spec = False)
   \<and> length (submissions (added w (snd (CloneVM d config w)))) =
       length (clone_requests None (added w (snd (CloneVM d config w))))
   \<and> length (clone_requests None (added w (snd (CloneVM d config w)))) \<le> 1"
proof -
  from CloneVM_tasks [of w d config] show ?thesis
    by (elim conjE) (intro conjI; assumption)
qed

theorem CloneVM_power_on_disabled_witness:
  "map (\<lambda>(template, spec, fetched). cloneSpec_PowerOn spec)
     (clone_requests None
       (added world0 (snd (CloneVM (fixture (\<lambda>w. PoweredOff) None) (clone_config '''' '''' False) world0)))) =
   [False]
   \<and> fst (CloneVM (fixture (\<lambda>w. PoweredOff) None) (clone_config '''' '''' False) world0) =
     Inr (MORef ''VirtualMachine'' ''vm-1'')"
proof -
  have "clone_requests None
      (added world0 (snd (CloneVM (fixture (\<lambda>w. PoweredOff) None) (clone_config '''' '''' False) world0))) =
    [(MORef ''VirtualMachine'' ''tpl1'',
      \<lparr>Location = \<lparr>Pool = Some (MORef ''ResourcePool'' ''''), Datastore_ref = None, DiskMoveType = ''''\<rparr>,
       cloneSpec_PowerOn = False, Snapshot = None\<rparr>, None)]"
    by (simp add: run fixture_def clone_config_def world0_def call_def added_def)
  moreover have "fst (CloneVM (fixture (\<lambda>w. PoweredOff) None) (clone_config '''' '''' False) world0) =
     Inr (MORef ''VirtualMachine'' ''vm-1'')"
    by (simp add: run fixture_def clone_config_def world0_def call_def)
  ultimately show ?thesis
    using CloneVM_power_on_disabled
      [of world0 "fixture (\<lambda>w. PoweredOff) None" "clone_config '''' '''' False"]
    by simp
qed

text \<open>Claim C3. With linked-clone set, every clone request of a run of CloneVM is for the
  template whose \<open>snapshot\<close> property the run fetched last before it; that fetch returned
  snapshot metadata, the specification's disk-move policy is the child-disk-backing mode
  (\<open>createNewChildDiskBacking\<close>), and its base snapshot is the current snapshot of that
  metadata. Second conjunct: if no lookup and no fetch fails and the template has
  snapshot metadata, the run does submit a clone request, exactly one.\<close>

theorem CloneVM_linked_base_snapshot:
  "LinkedClone config \<Longrightarrow>
   (\<forall>(template, spec, fetched) \<in> set (clone_requests None (added w (snd (CloneVM d config w)))).
      DiskMoveType (Location spec) = ''createNewChildDiskBacking'' \<and>
      (\<exists>tpl snapshot. fetched = Some (template, [''snapshot''], tpl) \<and>
         mo_Snapshot tpl = Some snapshot \<and> Snapshot spec = CurrentSnapshot snapshot))
   \<and> ((\<forall>w' t ps tpl. get_Properties d w' t ps = Inr tpl \<longrightarrow> mo_Snapshot tpl \<noteq> None) \<and>
       (\<forall>w' p e. find_VirtualMachine d w' p \<noteq> Inl e) \<and>
       (\<forall>w' p e. find_FolderOrDefault d w' p \<noteq> Inl e) \<and>
       (\<forall>w' p e. find_ResourcePoolOrDefault d w' p \<noteq> Inl e) \<and>
       (\<forall>w' p e. find_Datastore d w' p \<noteq> Inl e) \<and>
       (\<forall>w' t ps e. get_Properties d w' t ps \<noteq> Inl e) \<longrightarrow>
       length (clone_requests None (added w (snd (CloneVM d config w)))) = 1)"
proof (intro conjI impI)
  assume linked: "LinkedClone config"
  then show "\<forall>(template, spec, fetched) \<in> set (clone_requests None (added w (snd (CloneVM d config w)))).
      DiskMoveType (Location spec) = ''createNewChildDiskBacking'' \<and>
      (\<exists>tpl snapshot. fetched = Some (template, [''snapshot''], tpl) \<and>
         mo_Snapshot tpl = Some snapshot \<and> Snapshot spec = CurrentSnapshot snapshot)"
    by (rule CloneVM_linked)
next
  assume linked: "LinkedClone config"
    and ok: "(\<forall>w' t ps tpl. get_Properties d w' t ps = Inr tpl \<longrightarrow> mo_Snapshot tpl \<noteq> None) \<and>
       (\<forall>w' p e. find_VirtualMachine d w' p \<noteq> Inl e) \<and>
       (\<forall>w' p e. find_FolderOrDefault d w' p \<noteq> Inl e) \<and>
       (\<forall>w' p e. find_ResourcePoolOrDefault d w' p \<noteq> Inl e) \<and>
       (\<forall>w' p e. find_Datastore d w' p \<noteq> Inl e) \<and>
       (\<forall>w' t ps e. get_Properties d w' t ps \<noteq> Inl e)"
  from ok show "length (clone_requests None (added w (snd (CloneVM d config w)))) = 1"
    by (elim conjE) (rule CloneVM_linked_present [OF linked]; assumption)
qed

theorem CloneVM_linked_base_snapshot_witness:
  "clone_requests None
     (added world0 (snd (CloneVM (fixture (\<lambda>w. PoweredOff) (Some chain_S1_S2))
        (clone_config '''' '''' True) world0))) =
   [(MORef ''VirtualMachine'' ''tpl1'',
     \<lparr>Location = \<lparr>Pool = Some (MORef ''ResourcePool'' ''''), Datastore_ref = None,
                   DiskMoveType = ''createNewChildDiskBacking''\<rparr>,
      cloneSpec_PowerOn = False,
      Snapshot = Some (MORef ''VirtualMachineSnapshot'' ''S2'')\<rparr>,
     Some (MORef ''VirtualMachine'' ''tpl1'', [''snapshot''], \<lparr>mo_Snapshot = Some chain_S1_S2\<rparr>))]"
proof -
  let ?d = "fixture (\<lambda>w. PoweredOff) (Some chain_S1_S2)"
  have linked: "LinkedClone (clone_config '''' '''' True)"
    by (simp add: clone_config_def)
  have ok: "(\<forall>w' t ps tpl. get_Properties ?d w' t ps = Inr tpl \<longrightarrow> mo_Snapshot tpl \<noteq> None) \<and>
       (\<forall>w' p e. find_VirtualMachine ?d w' p \<noteq> Inl e) \<and>
       (\<forall>w' p e. find_FolderOrDefault ?d w' p \<noteq> Inl e) \<and>
       (\<forall>w' p e. find_ResourcePoolOrDefault ?d w' p \<noteq> Inl e) \<and>
       (\<forall>w' p e. find_Datastore ?d w' p \<noteq> Inl e) \<and>
       (\<forall>w' t ps e. get_Properties ?d w' t ps \<noteq> Inl e)"
    by (auto simp add: fixture_def)
  have run: "clone_requests None
     (added world0 (snd (CloneVM ?d (clone_config '''' '''' True) world0))) =
   [(MORef ''VirtualMachine'' ''tpl1'',
     \<lparr>Location = \<lparr>Pool = Some (MORef ''ResourcePool'' ''''), Datastore_ref = None,
                   DiskMoveType = ''createNewChildDiskBacking''\<rparr>,
      cloneSpec_PowerOn = False,
      Snapshot = CurrentSnapshot chain_S1_S2\<rparr>,
     Some (MORef ''VirtualMachine'' ''tpl1'', [''snapshot''], \<lparr>mo_Snapshot = Some chain_S1_S2\<rparr>))]"
    by (simp add: run fixture_def clone_config_def world0_def call_def added_def)
  from CloneVM_linked_base_snapshot [OF linked, of world0 ?d] ok run
  show ?thesis
    by (simp add: chain_S1_S2_def)
qed




text \<open>Claim C5. A run of CloneVM looks a resource pool up at most once. With a pool name,
  the path asked for is \<open>/<datacenter>/host/<host>/Resources/<pool>\<close>; without one it is the
  empty path, by which the finder's \<open>ResourcePoolOrDefault\<close> is asked for the default pool
  of the session's datacenter. Third conjunct: the lookup is made whenever the lookups of
  the template and of the folder do not fail. Fourth conjunct: the pool a clone request
  is placed in is the pool that lookup answered.\<close>

theorem CloneVM_resource_pool:
  "(ResourcePool config \<noteq> '''' \<longrightarrow>
      map fst (pool_lookups (added w (snd (CloneVM d config w)))) \<in>
        {[], [''/'' @ datacenter d @ ''/host/'' @ Host config @ ''/Resources/'' @ ResourcePool config]})
   \<and> (ResourcePool config = '''' \<longrightarrow>
      map fst (pool_lookups (added w (snd (CloneVM d config w)))) \<in> {[], ['''']})
   \<and> ((\<forall>w' p e. find_VirtualMachine d w' p \<noteq> Inl e) \<and>
       (\<forall>w' p e. find_FolderOrDefault d w' p \<noteq> Inl e) \<longrightarrow>
       pool_lookups (added w (snd (CloneVM d config w))) \<noteq> [])
   \<and> (\<forall>(template, spec, fetched) \<in> set (clone_requests None (added w (snd (CloneVM d config w)))).
        \<exists>pool. map snd (pool_lookups (added w (snd (CloneVM d config w)))) = [Inr pool] \<and>
          Pool (Location spec) = Some pool)"
proof (intro conjI impI)
  assume "ResourcePool config \<noteq> []"
  with CloneVM_pool [of w d config]
  show "map fst (pool_lookups (added w (snd (CloneVM d config w)))) \<in>
      {[], [''/'' @ datacenter d @ ''/host/'' @ Host config @ ''/Resources/'' @ ResourcePool config]}"
    by (elim conjE disjE) simp_all
next
  assume "ResourcePool config = []"
  with CloneVM_pool [of w d config]
  show "map fst (pool_lookups (added w (snd (CloneVM d config w)))) \<in> {[], [[]]}"
    by (elim conjE disjE) simp_all
next
  assume "(\<forall>w' p e. find_VirtualMachine d w' p \<noteq> Inl e) \<and>
       (\<forall>w' p e. find_FolderOrDefault d w' p \<noteq> Inl e)"
  then show "pool_lookups (added w (snd (CloneVM d config w))) \<noteq> []"
    by (elim conjE) (rule CloneVM_pool_reached; assumption)
next
  from CloneVM_pool [of w d config]
  show "\<forall>(template, spec, fetched) \<in> set (clone_requests None (added w (snd (CloneVM d config w)))).
        \<exists>pool. map snd (pool_lookups (added w (snd (CloneVM d config w)))) = [Inr pool] \<and>
          Pool (Location spec) = Some pool"
    by (elim conjE)
qed

theorem CloneVM_resource_pool_witness:
  "map fst (pool_lookups (added world0 (snd (CloneVM (fixture (\<lambda>w. PoweredOff) None)
      (clone_config ''esx1'' ''pool1'' False) world0)))) = [''/dc1/host/esx1/Resources/pool1'']
   \<and> map fst (pool_lookups (added world0 (snd (CloneVM (fixture (\<lambda>w. PoweredOff) None)
      (clone_config '''' '''' False) world0)))) = ['''']
   \<and> map (\<lambda>(template, spec, fetched). Pool (Location spec))
       (clone_requests None (added world0 (snd (CloneVM (fixture (\<lambda>w. PoweredOff) None)
          (clone_config ''esx1'' ''pool1'' False) world0)))) =
     [Some (MORef ''ResourcePool'' ''/dc1/host/esx1/Resources/pool1'')]"
proof -
  let ?d = "fixture (\<lambda>w. PoweredOff) None"
  have ok: "(\<forall>w' p e. find_VirtualMachine ?d w' p \<noteq> Inl e) \<and>
       (\<forall>w' p e. find_FolderOrDefault ?d w' p \<noteq> Inl e)"
    by (auto simp add: fixture_def)
  have named: "ResourcePool (clone_config ''esx1'' ''pool1'' False) \<noteq> ''''"
    and unnamed: "ResourcePool (clone_config '''' '''' False) = ''''"
    and texts: "Host (clone_config ''esx1'' ''pool1'' False) = ''esx1''"
      "ResourcePool (clone_config ''esx1'' ''pool1'' False) = ''pool1''" "datacenter ?d = ''dc1''"
    by (simp_all add: clone_config_def fixture_def)
  have request: "clone_requests None (added world0 (snd (CloneVM ?d
          (clone_config ''esx1'' ''pool1'' False) world0))) =
    [(MORef ''VirtualMachine'' ''tpl1'',
      \<lparr>Location = \<lparr>Pool = Some (MORef ''ResourcePool'' ''/dc1/host/esx1/Resources/pool1''),
                    Datastore_ref = None, DiskMoveType = ''''\<rparr>,
       cloneSpec_PowerOn = False, Snapshot = None\<rparr>, None)]"
    by (simp add: run fixture_def clone_config_def world0_def call_def added_def)
  from CloneVM_resource_pool [of "clone_config ''esx1'' ''pool1'' False" world0 ?d] ok named texts
  have one: "map fst (pool_lookups (added world0 (snd (CloneVM ?d
      (clone_config ''esx1'' ''pool1'' False) world0)))) = [''/dc1/host/esx1/Resources/pool1'']"
    by auto
  from CloneVM_resource_pool [of "clone_config '''' '''' False" world0 ?d] ok unnamed
  have two: "map fst (pool_lookups (added world0 (snd (CloneVM ?d
      (clone_config '''' '''' False) world0)))) = ['''']"
    by auto
  from one two request show ?thesis
    by simp
qed

subsection \<open>The operations with one task\<close>

lemmas ops = DestroyVM_def ConfigureVM_def PowerOn_def PowerOff_def CreateSnapshot_def Let_def

text \<open>Claim C7. Every operation that submits a task waits for that task before it returns:
  among the events that a run of CloneVM, DestroyVM, ConfigureVM, PowerOn, PowerOff or
  CreateSnapshot adds to the history, every task that a submission yielded is followed by
  the wait for it, so no task of the run is in flight when the run ends. DestroyVM,
  ConfigureVM, PowerOn and CreateSnapshot make exactly one submission each.\<close>

theorem tasks_awaited_before_return:
  "in_flight (added w (snd (CloneVM d config w))) = {#}
   \<and> in_flight (added w (snd (DestroyVM d vm w))) = {#}
   \<and> in_flight (added w (snd (ConfigureVM d vm hardware w))) = {#}
   \<and> in_flight (added w (snd (PowerOn d vm w))) = {#}
   \<and> in_flight (added w (snd (PowerOff d vm w))) = {#}
   \<and> in_flight (added w (snd (CreateSnapshot d vm w))) = {#}
   \<and> length (submissions (added w (snd (DestroyVM d vm w)))) = 1
   \<and> length (submissions (added w (snd (ConfigureVM d vm hardware w)))) = 1
   \<and> length (submissions (added w (snd (PowerOn d vm w)))) = 1
   \<and> length (submissions (added w (snd (CreateSnapshot d vm w)))) = 1"
proof -
  from CloneVM_tasks [of w d config]
  have "in_flight (added w (snd (CloneVM d config w))) = {#}"
    by (elim conjE)
  moreover have "in_flight (added w (snd (DestroyVM d vm w))) = {#}"
    and "in_flight (added w (snd (ConfigureVM d vm hardware w))) = {#}"
    and "in_flight (added w (snd (PowerOn d vm w))) = {#}"
    and "in_flight (added w (snd (PowerOff d vm w))) = {#}"
    and "in_flight (added w (snd (CreateSnapshot d vm w))) = {#}"
    by (simp_all add: ops steps reads split: sum.splits)
  moreover have "length (submissions (added w (snd (DestroyVM d vm w)))) = 1"
    and "length (submissions (added w (snd (ConfigureVM d vm hardware w)))) = 1"
    and "length (submissions (added w (snd (PowerOn d vm w)))) = 1"
    and "length (submissions (added w (snd (CreateSnapshot d vm w)))) = 1"
    by (simp_all add: ops steps reads split: sum.splits)
  ultimately show ?thesis
    by (intro conjI)
qed

text \<open>Claim C8. ConfigureVM makes exactly one submission, a reconfiguration of the machine
  whose specification carries the CPU count, the RAM size in MB, the CPU reservation, the
  CPU limit, the RAM reservation and the flag that locks the RAM reservation to the
  maximum, all taken from the hardware configuration.\<close>

theorem ConfigureVM_single_request:
  "\<exists>r. submissions (added w (snd (ConfigureVM d vm config w))) =
     [EvSubmit (OpReconfigure vm
        \<lparr>NumCPUs = CPUs config,
         MemoryMB = RAM config,
         CpuAllocation = Some \<lparr>Reservation = CPUReservation config, Limit = CPULimit config\<rparr>,
         MemoryAllocation = Some \<lparr>Reservation = RAMReservation config, Limit = 0\<rparr>,
         MemoryReservationLockedToMax = Some (RAMReserveAll config)\<rparr>) r]"
  by (simp add: ops steps reads split: sum.splits)

text \<open>Claim C4. If the power-state query reports powered off, PowerOff returns success and
  has submitted no task: its run is that query alone. If the query reports any other
  state, the run is the query, exactly one submission, of a power-off of this machine,
  and, when the submission yields a task, the wait for that task; nothing is in flight
  at its end, and the result is the error of the submission or else the outcome of the
  wait.\<close>

theorem PowerOff_tasks:
  "(get_PowerState d w vm = Inr PoweredOff \<longrightarrow>
      PowerOff d vm w = (Inr (), call d (EvPowerState vm (Inr PoweredOff)) w)
      \<and> submissions (added w (snd (PowerOff d vm w))) = [])
   \<and> (get_PowerState d w vm = Inr state \<and> state \<noteq> PoweredOff \<longrightarrow>
      (\<exists>r a. added w (snd (PowerOff d vm w)) =
          EvPowerState vm (Inr state) # EvSubmit (OpPowerOff vm) r #
            (case r of Inl err \<Rightarrow> [] | Inr task \<Rightarrow> [EvAwait task a])
        \<and> fst (PowerOff d vm w) =
          (case r of Inl err \<Rightarrow> Inl err
           | Inr task \<Rightarrow> (case a of Inl err \<Rightarrow> Inl err | Inr info \<Rightarrow> Inr ())))
      \<and> length (submissions (added w (snd (PowerOff d vm w)))) = 1
      \<and> in_flight (added w (snd (PowerOff d vm w))) = {#})"
  by (simp add: ops steps reads split: sum.splits)

theorem PowerOff_tasks_witness:
  "PowerOff (fixture (\<lambda>w. PoweredOff) None) (MORef ''VirtualMachine'' ''vm-1'') world0 =
     (Inr (), \<lparr>now = 0, trace = [EvPowerState (MORef ''VirtualMachine'' ''vm-1'') (Inr PoweredOff)]\<rparr>)
   \<and> submissions (added world0
        (snd (PowerOff (fixture (\<lambda>w. PoweredOff) None) (MORef ''VirtualMachine'' ''vm-1'') world0))) = []
   \<and> added world0
        (snd (PowerOff (fixture (\<lambda>w. PoweredOn) None) (MORef ''VirtualMachine'' ''vm-1'') world0)) =
     [EvPowerState (MORef ''VirtualMachine'' ''vm-1'') (Inr PoweredOn),
      EvSubmit (OpPowerOff (MORef ''VirtualMachine'' ''vm-1'')) (Inr (TaskRef (MORef ''Task'' ''task-1''))),
      EvAwait (TaskRef (MORef ''Task'' ''task-1''))
        (Inr \<lparr>Result = AnyRef (MORef ''VirtualMachine'' ''vm-1'')\<rparr>)]
   \<and> length (submissions (added world0
        (snd (PowerOff (fixture (\<lambda>w. PoweredOn) None) (MORef ''VirtualMachine'' ''vm-1'') world0)))) = 1
   \<and> fst (PowerOff (fixture (\<lambda>w. PoweredOn) None) (MORef ''VirtualMachine'' ''vm-1'') world0) = Inr ()"
proof -
  let ?off = "fixture (\<lambda>w. PoweredOff) None" and ?on = "fixture (\<lambda>w. PoweredOn) None"
  let ?vm = "MORef ''VirtualMachine'' ''vm-1''"
  have off: "get_PowerState ?off world0 ?vm = Inr PoweredOff"
    and on: "get_PowerState ?on world0 ?vm = Inr PoweredOn \<and> PoweredOn \<noteq> PoweredOff"
    by (simp_all add: fixture_def)
  have run: "added world0 (snd (PowerOff ?on ?vm world0)) =
     [EvPowerState ?vm (Inr PoweredOn),
      EvSubmit (OpPowerOff ?vm) (Inr (TaskRef (MORef ''Task'' ''task-1''))),
      EvAwait (TaskRef (MORef ''Task'' ''task-1'')) (Inr \<lparr>Result = AnyRef ?vm\<rparr>)]"
    and res: "fst (PowerOff ?on ?vm world0) = Inr ()"
    by (simp_all add: ops steps reads fixture_def world0_def call_def)
  have after: "call ?off (EvPowerState ?vm (Inr PoweredOff)) world0 =
      \<lparr>now = 0, trace = [EvPowerState ?vm (Inr PoweredOff)]\<rparr>"
    by (simp add: call_def fixture_def world0_def)
  from PowerOff_tasks [of ?off world0 ?vm PoweredOn] off
  have returned: "PowerOff ?off ?vm world0 =
      (Inr (), call ?off (EvPowerState ?vm (Inr PoweredOff)) world0)"
    and none: "submissions (added world0 (snd (PowerOff ?off ?vm world0))) = []"
    by blast+
  from returned after have first: "PowerOff ?off ?vm world0 =
      (Inr (), \<lparr>now = 0, trace = [EvPowerState ?vm (Inr PoweredOff)]\<rparr>)"
    by simp
  from PowerOff_tasks [of ?on world0 ?vm PoweredOn] on
  have one: "length (submissions (added world0 (snd (PowerOff ?on ?vm world0)))) = 1"
    by blast
  from first none run one res show ?thesis
    by (intro conjI)
qed

end
